theory Spec2Isabelle
  imports Complex_Main
begin

section \<open>Data model\<close>

text \<open>
  The program is one Python module, \<^verbatim>\<open>cli.py\<close>. Its data are JSON-shaped:
  a requirement is a list of strings (the checker's name, then its parameters), a
  page's configuration is an object with a \<^verbatim>\<open>url\<close> and a list of
  \<^verbatim>\<open>requirements\<close>, an event is an object tagged by its \<^verbatim>\<open>type\<close>
  field, and the configuration and the log are dictionaries keyed by page name.
  Python dictionaries keep insertion order, and both the run loop and the status page
  iterate over them, so a dictionary is an association list here.

  Time stamps and durations are Python floats; they are read as the real numbers they
  denote. The rounding of the one float subtraction in \<^verbatim>\<open>check_page\<close> is not
  modelled (no statement below depends on the value of a duration).
\<close>

type_synonym requirement = "string list"

record page_config =
  url :: string
  requirements :: "requirement list"

type_synonym config = "(string \<times> page_config) list"

text \<open>
  The event dictionaries that \<^verbatim>\<open>check_page\<close> builds, before
  \<^verbatim>\<open>Log.add_event\<close> stamps them; the constructor is the \<^verbatim>\<open>type\<close> field.
\<close>

datatype event_fields =
    response_failed string
  | response_received real
  | requirement_passed requirement
  | requirement_failed requirement

record event =
  body :: event_fields
  timestamp :: real

type_synonym log_dict = "(string \<times> event list) list"

text \<open>The exceptions of the program that nothing catches.\<close>

datatype error =
    AttributeError string
  | KeyError string
  | IndexError
  | ReError string
  | JSONDecodeError string
  | IsADirectoryError string
  | OSError string
  | OverflowError string
  | ValueError string

text \<open>What \<^verbatim>\<open>print\<close> was given: a string, or an event dictionary.\<close>

datatype printed = Line string | EventRepr event

text \<open>
  The effects on the outside: an HTTP GET of a URL, a file opened for writing and
  filled, a line on standard output, a sleep of so many seconds.
\<close>

datatype 'b io = Get string | Write string 'b | Print printed | Sleep int

text \<open>
  The world the process runs in: the files (every path that exists, with what is at
  the path, of type \<open>'b\<close>: the content of a file, or a directory, or a file that
  may not be read), the effects so far, oldest first, and the number of times the
  process has asked the outside for something (the time, a web page, a sleep), which
  indexes the answers in \<open>env\<close> below.
\<close>

record 'b world =
  files :: "string \<rightharpoonup> 'b"
  trace :: "'b io list"
  tick :: nat

text \<open>
  What the module imports and does not define. \<open>re_search term content\<close> is
  \<^verbatim>\<open>re.search(term, content)\<close>: an error for a pattern that does not compile,
  else whether a match was found. \<open>json_dump\<close> is the file that \<^verbatim>\<open>json.dump\<close>
  writes for a log. The two \<open>json_load\<close> are \<^verbatim>\<open>open(path, 'r')\<close> and
  \<^verbatim>\<open>json.load\<close> on what is at an existing path, at the types of the log and of
  the configuration: \<open>Inl\<close> the exception of \<^verbatim>\<open>open\<close> (a directory, a file
  that may not be read) or of \<^verbatim>\<open>json.load\<close> (a file that is not JSON).
  \<open>time_at n\<close> is what \<^verbatim>\<open>time.time()\<close> returns when asked at
  tick \<open>n\<close>, and \<open>http_at n u\<close> what \<^verbatim>\<open>requests.get(u)\<close> does then: \<open>Inl\<close>
  the text of the exception raised, \<open>Inr\<close> the body of the response.
  \<open>str_datetime\<close> is \<^verbatim>\<open>str(datetime.datetime.fromtimestamp(t))\<close>, \<open>format_2f\<close>
  is \<^verbatim>\<open>format(d, ".2f")\<close> and \<open>str_requirement\<close> is \<^verbatim>\<open>str\<close> of a list.
  \<open>write_fault n path\<close> says how \<^verbatim>\<open>open(path, 'w')\<close> followed by the write
  goes at tick \<open>n\<close>: \<open>None\<close> when it completes, else the exception raised (the
  path may not be written, the disk is full) and what is left at the path (nothing,
  the old file, or a truncated one).
\<close>

record 'b env =
  re_search :: "string \<Rightarrow> string \<Rightarrow> error + bool"
  json_dump :: "log_dict \<Rightarrow> 'b"
  json_load_log :: "'b \<Rightarrow> error + log_dict"
  json_load_config :: "'b \<Rightarrow> error + config"
  time_at :: "nat \<Rightarrow> real"
  http_at :: "nat \<Rightarrow> string \<Rightarrow> string + string"
  str_datetime :: "real \<Rightarrow> string"
  format_2f :: "real \<Rightarrow> string"
  str_requirement :: "requirement \<Rightarrow> string"
  write_fault :: "nat \<Rightarrow> string \<Rightarrow> (error \<times> 'b option) option"

section \<open>Primitive effects\<close>

definition print :: "printed \<Rightarrow> 'b world \<Rightarrow> 'b world" where
  "print x w = w\<lparr>trace := trace w @ [Print x]\<rparr>"

definition time_time :: "'b env \<Rightarrow> 'b world \<Rightarrow> real \<times> 'b world" where
  "time_time E w = (time_at E (tick w), w\<lparr>tick := Suc (tick w)\<rparr>)"

text \<open>
  \<^verbatim>\<open>time.sleep(d)\<close> on an integer: it raises ValueError on a negative one, and
  OverflowError on one whose nanoseconds do not fit in 64 bits, that is above
  \<open>sleep_max\<close> seconds.
\<close>

definition sleep_max :: int where
  "sleep_max = 9223372036"

definition time_sleep :: "int \<Rightarrow> 'b world \<Rightarrow> (error + unit) \<times> 'b world" where
  "time_sleep d w =
     (if d < 0 then (Inl (ValueError ''sleep length must be non-negative''), w)
      else if sleep_max < d
      then (Inl (OverflowError ''timestamp too large to convert to C _PyTime_t''), w)
      else (Inr (), w\<lparr>trace := trace w @ [Sleep d], tick := Suc (tick w)\<rparr>))"

definition requests_get :: "'b env \<Rightarrow> string \<Rightarrow> 'b world \<Rightarrow> (string + string) \<times> 'b world" where
  "requests_get E u w =
     (http_at E (tick w) u, w\<lparr>trace := trace w @ [Get u], tick := Suc (tick w)\<rparr>)"

definition write_file :: "string \<Rightarrow> 'b \<Rightarrow> 'b world \<Rightarrow> 'b world" where
  "write_file path c w = w\<lparr>files := (files w)(path \<mapsto> c), trace := trace w @ [Write path c]\<rparr>"

section \<open>Requirement checkers\<close>

text \<open>
  \<^verbatim>\<open>content_includes_checker(content, *terms)\<close>: the loop over \<open>terms\<close>; the
  first term without a match prints the content and returns False.
\<close>

fun content_includes_checker ::
  "'b env \<Rightarrow> string \<Rightarrow> string list \<Rightarrow> 'b world \<Rightarrow> (error + bool) \<times> 'b world" where
  "content_includes_checker E content [] w = (Inr True, w)"
| "content_includes_checker E content (t # terms) w =
     (case re_search E t content of
        Inl e \<Rightarrow> (Inl e, w)
      | Inr found \<Rightarrow>
          if \<not> found then (Inr False, print (Line content) w)
          else content_includes_checker E content terms w)"

fun content_does_not_include_checker ::
  "'b env \<Rightarrow> string \<Rightarrow> string list \<Rightarrow> 'b world \<Rightarrow> (error + bool) \<times> 'b world" where
  "content_does_not_include_checker E content [] w = (Inr True, w)"
| "content_does_not_include_checker E content (t # terms) w =
     (case re_search E t content of
        Inl e \<Rightarrow> (Inl e, w)
      | Inr found \<Rightarrow>
          if found then (Inr False, w)
          else content_does_not_include_checker E content terms w)"

text \<open>
  A checker takes the content and the parameters and returns a truth value, or
  raises; it may print.
\<close>

type_synonym 'b checker =
  "'b env \<Rightarrow> string \<Rightarrow> string list \<Rightarrow> 'b world \<Rightarrow> (error + bool) \<times> 'b world"

definition get_requirement_checkers :: "string \<rightharpoonup> 'b checker" where
  "get_requirement_checkers =
     [''content_includes'' \<mapsto> content_includes_checker,
      ''content_does_not_include'' \<mapsto> content_does_not_include_checker]"

section \<open>Dictionaries\<close>

text \<open>
  \<open>setitem k v d\<close> is \<^verbatim>\<open>d[k] = v\<close>: a key already there keeps its place, a
  new key goes last. \<open>dict_update d other\<close> is \<^verbatim>\<open>d.update(other)\<close>.
  \<open>getitem_default k d\<close> is \<^verbatim>\<open>d[k]\<close> on a \<^verbatim>\<open>defaultdict(list)\<close>: a
  missing key is inserted with the empty list before it is returned, so the lookup
  returns the dictionary too.
\<close>

fun setitem :: "'k \<Rightarrow> 'v \<Rightarrow> ('k \<times> 'v) list \<Rightarrow> ('k \<times> 'v) list" where
  "setitem k v [] = [(k, v)]"
| "setitem k v ((k', v') # d) = (if k' = k then (k', v) # d else (k', v') # setitem k v d)"

definition dict_update :: "('k \<times> 'v) list \<Rightarrow> ('k \<times> 'v) list \<Rightarrow> ('k \<times> 'v) list" where
  "dict_update d other = fold (\<lambda>(k, v). setitem k v) other d"

definition getitem_default :: "'k \<Rightarrow> ('k \<times> 'v list) list \<Rightarrow> 'v list \<times> ('k \<times> 'v list) list" where
  "getitem_default k d =
     (case map_of d k of
        Some v \<Rightarrow> (v, d)
      | None \<Rightarrow> ([], d @ [(k, [])]))"

section \<open>The event log\<close>

record Log =
  logfile :: string
  verbose :: bool
  the_log :: log_dict

text \<open>
  \<^verbatim>\<open>Log.save\<close>: the file is opened for writing and the whole dictionary dumped.
  \<open>save\<close> is the world after a write that completes, and \<open>Log_save\<close> is the
  call of the method: it returns after a write that completes, and raises when the
  write fails.
\<close>

definition save :: "'b env \<Rightarrow> Log \<Rightarrow> 'b world \<Rightarrow> 'b world" where
  "save E self w = write_file (logfile self) (json_dump E (the_log self)) w"

definition Log_save :: "'b env \<Rightarrow> Log \<Rightarrow> 'b world \<Rightarrow> (error + unit) \<times> 'b world" where
  "Log_save E self w =
     (case write_fault E (tick w) (logfile self) of
        None \<Rightarrow> (Inr (), save E self w)
      | Some (e, left) \<Rightarrow> (Inl e, w\<lparr>files := (files w)(logfile self := left)\<rparr>))"

text \<open>
  \<^verbatim>\<open>Log.__init__\<close>: a missing file is created by \<open>Log_save\<close>, an existing one
  is loaded into the fresh dictionary.
\<close>

definition Log_init :: "'b env \<Rightarrow> string \<Rightarrow> bool \<Rightarrow> 'b world \<Rightarrow> (error + Log) \<times> 'b world" where
  "Log_init E lf vb w =
     (let self = \<lparr>logfile = lf, verbose = vb, the_log = []\<rparr> in
      case files w lf of
        None \<Rightarrow>
          let w1 = (if vb then print (Line (''Log file '' @ lf @ '' does not exist, creating'')) w
                    else w)
          in (case Log_save E self w1 of
                (Inl e, w2) \<Rightarrow> (Inl e, w2)
              | (Inr u, w2) \<Rightarrow> (Inr self, w2))
      | Some c \<Rightarrow>
          let w1 = (if vb then print (Line (''Checking log file '' @ lf)) w else w)
          in (case json_load_log E c of
                Inl e \<Rightarrow> (Inl e, w1)
              | Inr loaded \<Rightarrow> (Inr (self\<lparr>the_log := dict_update (the_log self) loaded\<rparr>), w1)))"

text \<open>
  \<^verbatim>\<open>Log.add_event\<close>: the event is stamped with the time read now and appended to
  the list that \<^verbatim>\<open>self._log[page]\<close> returns.
\<close>

definition add_event :: "'b env \<Rightarrow> Log \<Rightarrow> string \<Rightarrow> event_fields \<Rightarrow> 'b world \<Rightarrow> Log \<times> 'b world" where
  "add_event E self page ev w =
     (let (now, w1) = time_time E w;
          event = \<lparr>body = ev, timestamp = now\<rparr>;
          (events, d) = getitem_default page (the_log self);
          self' = self\<lparr>the_log := setitem page (events @ [event]) d\<rparr>;
          w2 = (if verbose self then print (EventRepr event) w1 else w1)
      in (self', w2))"

definition get_pages :: "Log \<Rightarrow> string list" where
  "get_pages self = map fst (the_log self)"

definition get_events :: "Log \<Rightarrow> string \<Rightarrow> event list \<times> Log" where
  "get_events self page =
     (let (events, d) = getitem_default page (the_log self)
      in (events, self\<lparr>the_log := d\<rparr>))"

section \<open>The configuration loader\<close>

text \<open>
  \<^verbatim>\<open>load_config\<close>: for a missing file it prints and calls \<^verbatim>\<open>sys.abort(-1)\<close>.
  The module \<^verbatim>\<open>sys\<close> has no such attribute, so the call raises AttributeError.
  For a path that exists it opens and loads what is there, and nothing catches what
  \<^verbatim>\<open>open\<close> or \<^verbatim>\<open>json.load\<close> raise.
\<close>

definition load_config :: "'b env \<Rightarrow> string \<Rightarrow> 'b world \<Rightarrow> (error + config) \<times> 'b world" where
  "load_config E configfile w =
     (case files w configfile of
        None \<Rightarrow>
          (Inl (AttributeError ''abort''),
           print (Line (''Config file '' @ configfile @ '' not found.'')) w)
      | Some c \<Rightarrow> (json_load_config E c, w))"

section \<open>The page checker\<close>

text \<open>
  The loop of \<^verbatim>\<open>check_page\<close> over the requirements. \<^verbatim>\<open>requirement[0]\<close>
  raises IndexError on an empty requirement, and the lookup of the checker raises
  KeyError on a name that is not registered.
\<close>

fun check_requirements ::
  "'b env \<Rightarrow> string \<Rightarrow> string \<Rightarrow> requirement list \<Rightarrow> Log \<Rightarrow> 'b world \<Rightarrow> (error + Log) \<times> 'b world" where
  "check_requirements E page content [] lg w = (Inr lg, w)"
| "check_requirements E page content (requirement # rest) lg w =
     (case requirement of
        [] \<Rightarrow> (Inl IndexError, w)
      | requirement_name # requirement_params \<Rightarrow>
          (case get_requirement_checkers requirement_name of
             None \<Rightarrow> (Inl (KeyError requirement_name), w)
           | Some matcher \<Rightarrow>
               (case matcher E content requirement_params w of
                  (Inl e, w1) \<Rightarrow> (Inl e, w1)
                | (Inr is_valid, w1) \<Rightarrow>
                    let (log1, w2) =
                          (if is_valid then add_event E lg page (requirement_passed requirement) w1
                           else add_event E lg page (requirement_failed requirement) w1)
                    in check_requirements E page content rest log1 w2)))"

definition check_page ::
  "'b env \<Rightarrow> string \<Rightarrow> page_config \<Rightarrow> Log \<Rightarrow> 'b world \<Rightarrow> (error + Log) \<times> 'b world" where
  "check_page E page config lg w =
     (let (t_start, w1) = time_time E w;
          (result, w2) = requests_get E (url config) w1
      in case result of
           Inl e \<Rightarrow>
             let (log1, w3) = add_event E lg page (response_failed e) w2
             in (Inr log1, w3)
         | Inr content \<Rightarrow>
             let (t_end, w3) = time_time E w2;
                 duration = t_end - t_start;
                 (log1, w4) = add_event E lg page (response_received duration) w3
             in check_requirements E page content (requirements config) log1 w4)"

section \<open>The run loop\<close>

text \<open>
  The \<^verbatim>\<open>for\<close> loop of \<^verbatim>\<open>run_check\<close>: each page is checked and the log saved.
  An exception, of the check or of the save, leaves the loop at once.
\<close>

fun check_pages :: "'b env \<Rightarrow> config \<Rightarrow> Log \<Rightarrow> 'b world \<Rightarrow> (error + Log) \<times> 'b world" where
  "check_pages E [] lg w = (Inr lg, w)"
| "check_pages E ((page, config) # rest) lg w =
     (case check_page E page config lg w of
        (Inl e, w1) \<Rightarrow> (Inl e, w1)
      | (Inr log1, w1) \<Rightarrow>
          (case Log_save E log1 w1 of
             (Inl e, w2) \<Rightarrow> (Inl e, w2)
           | (Inr u, w2) \<Rightarrow> check_pages E rest log1 w2))"

text \<open>
  The \<^verbatim>\<open>while True\<close> loop of \<^verbatim>\<open>run_check\<close>. It need not end, so the result is
  an option: \<open>None\<close> when the loop runs forever.
\<close>

partial_function (option) run_loop ::
  "'b env \<Rightarrow> config \<Rightarrow> int \<Rightarrow> bool \<Rightarrow> Log \<Rightarrow> 'b world \<Rightarrow> ((error + Log) \<times> 'b world) option" where
  "run_loop E pages delay vb lg w =
     (case check_pages E pages lg (if vb then print (Line ''Starting check..'') w else w) of
        (Inl e, w1) \<Rightarrow> Some (Inl e, w1)
      | (Inr log1, w1) \<Rightarrow>
          if delay < 0 then Some (Inr log1, w1)
          else (case time_sleep delay w1 of
                  (Inl e, w2) \<Rightarrow> Some (Inl e, w2)
                | (Inr u, w2) \<Rightarrow> run_loop E pages delay vb log1 w2))"

text \<open>
  \<^verbatim>\<open>run_check\<close> without \<^verbatim>\<open>--html\<close> (that option starts the status server on
  a thread of its own, which a sequential model does not have).
\<close>

definition run_check ::
  "'b env \<Rightarrow> string \<Rightarrow> int \<Rightarrow> string \<Rightarrow> bool \<Rightarrow> 'b world \<Rightarrow> ((error + unit) \<times> 'b world) option" where
  "run_check E configfile delay lf vb w =
     (case load_config E configfile w of
        (Inl e, w1) \<Rightarrow> Some (Inl e, w1)
      | (Inr pages, w1) \<Rightarrow>
          (case Log_init E lf vb w1 of
             (Inl e, w2) \<Rightarrow> Some (Inl e, w2)
           | (Inr lg, w2) \<Rightarrow>
               (case run_loop E pages delay vb lg w2 of
                  None \<Rightarrow> None
                | Some (Inl e, w3) \<Rightarrow> Some (Inl e, w3)
                | Some (Inr log1, w3) \<Rightarrow>
                    Some (Inr (), if vb then print (Line ''Finished'') w3 else w3))))"

section \<open>The status page\<close>





section \<open>A concrete environment\<close>

text \<open>
  The statements below hold for every environment. To run the program on concrete
  inputs one environment is fixed here. Its regular expressions are the ones the
  examples use: a pattern of letters only is found where it occurs as a substring,
  and the pattern \<^verbatim>\<open>(\<close> does not compile. What is at a path is the value that
  \<^verbatim>\<open>json.load\<close> reads from it, or a file that is not JSON (the empty file is
  \<open>NotJson []\<close>), or a directory. Every write completes. The clock reads the tick,
  and one URL answers.
  The three formats are the ones of Python on the values the examples use: a whole
  number of seconds below one minute after the epoch (on a machine in UTC), a
  duration from 0 up to 10 seconds (rounded to the nearest hundredth, a tie to the
  even one), and a list of strings without quotes or backslashes.
\<close>

definition two_digits :: "nat \<Rightarrow> string" where
  "two_digits n = [''0123456789'' ! (n div 10 mod 10), ''0123456789'' ! (n mod 10)]"

definition hundredths :: "real \<Rightarrow> nat" where
  "hundredths d =
     (let q = nat \<lfloor>d * 100\<rfloor>; r = d * 100 - real q
      in if 1 / 2 < r \<or> (r = 1 / 2 \<and> odd q) then Suc q else q)"

definition example_2f :: "real \<Rightarrow> string" where
  "example_2f d =
     [''0123456789'' ! (hundredths d div 100 mod 10)] @ ''.'' @ two_digits (hundredths d mod 100)"

definition example_str_list :: "string list \<Rightarrow> string" where
  "example_str_list r =
     ''['' @ concat (map (\<lambda>s. [CHR 0x27] @ s @ [CHR 0x27, CHR '','', CHR '' '']) (butlast r)) @
       (if r = [] then [] else [CHR 0x27] @ last r @ [CHR 0x27]) @ '']''"

fun starts_with :: "string \<Rightarrow> string \<Rightarrow> bool" where
  "starts_with [] s = True"
| "starts_with (p # ps) [] = False"
| "starts_with (p # ps) (c # cs) = (p = c \<and> starts_with ps cs)"

fun find_literal :: "string \<Rightarrow> string \<Rightarrow> bool" where
  "find_literal p [] = starts_with p []"
| "find_literal p (c # cs) = (starts_with p (c # cs) \<or> find_literal p cs)"

datatype json_file = LogFile log_dict | ConfigFile config | NotJson string | Directory

definition example_env :: "json_file env" where
  "example_env =
     \<lparr>re_search =
        (\<lambda>t c. if t = ''(''
               then Inl (ReError ''missing ), unterminated subpattern at position 0'')
               else Inr (find_literal t c)),
      json_dump = LogFile,
      json_load_log =
        (\<lambda>f. case f of LogFile d \<Rightarrow> Inr d
                | ConfigFile c \<Rightarrow> Inl (JSONDecodeError ''not a log'')
                | NotJson s \<Rightarrow> Inl (JSONDecodeError ''Expecting value: line 1 column 1 (char 0)'')
                | Directory \<Rightarrow> Inl (IsADirectoryError ''Is a directory'')),
      json_load_config =
        (\<lambda>f. case f of ConfigFile c \<Rightarrow> Inr c
                | LogFile d \<Rightarrow> Inl (JSONDecodeError ''not a configuration'')
                | NotJson s \<Rightarrow> Inl (JSONDecodeError ''Expecting value: line 1 column 1 (char 0)'')
                | Directory \<Rightarrow> Inl (IsADirectoryError ''Is a directory'')),
      time_at = real,
      http_at =
        (\<lambda>n u. if u = ''http://example.test'' then Inr ''Example Domain''
               else Inl ''Connection refused''),
      str_datetime = (\<lambda>t. ''1970-01-01 00:00:'' @ two_digits (nat \<lfloor>t\<rfloor>)),
      format_2f = example_2f,
      str_requirement = example_str_list,
      write_fault = (\<lambda>n path. None)\<rparr>"

definition example_world :: "json_file world" where
  "example_world = \<lparr>files = Map.empty, trace = [], tick = 0\<rparr>"

definition example_page :: page_config where
  "example_page =
     \<lparr>url = ''http://example.test'', requirements = [[''content_includes'', ''Example'']]\<rparr>"

definition down_page :: page_config where
  "down_page =
     \<lparr>url = ''http://down.test'', requirements = [[''content_includes'', ''Example'']]\<rparr>"

definition example_log :: Log where
  "example_log = \<lparr>logfile = ''log.json'', verbose = False, the_log = []\<rparr>"

definition example_config :: config where
  "example_config = [(''site'', example_page)]"

definition example_disk :: "json_file world" where
  "example_disk = \<lparr>files = [''pages.json'' \<mapsto> ConfigFile example_config], trace = [], tick = 0\<rparr>"

section \<open>Notions the statements use\<close>

text \<open>
  A requirement passes on a response body when it has a name, the name is registered,
  and the registered checker returns True on the body and the parameters (in whatever
  world it is called: the world only receives what the checker prints).
\<close>

definition requirement_passes :: "'b env \<Rightarrow> string \<Rightarrow> requirement \<Rightarrow> bool" where
  "requirement_passes E content r =
     (case r of
        [] \<Rightarrow> False
      | name # params \<Rightarrow>
          (case get_requirement_checkers name of
             None \<Rightarrow> False
           | Some matcher \<Rightarrow> \<forall>w. fst (matcher E content params w) = Inr True))"



text \<open>A log file with fifteen events for one page, in the concrete environment.\<close>

definition example_event :: "nat \<Rightarrow> event" where
  "example_event n = \<lparr>body = response_received (1 / 2), timestamp = real n\<rparr>"

definition example_events :: "event list" where
  "example_events = map example_event [1, 2, 3, 4, 5, 6, 7, 8, 9, 10, 11, 12, 13, 14, 15]"










text \<open>
  The log after calls of \<open>get_events\<close> for each page of a list, in turn.
\<close>

definition after_reads :: "Log \<Rightarrow> string list \<Rightarrow> Log" where
  "after_reads self ps = fold (\<lambda>page l. snd (get_events l page)) ps self"

text \<open>
  A log object that holds the fifteen events, and a disk with an empty file where the
  configuration should be, and a directory.
\<close>

definition example_filled :: Log where
  "example_filled = \<lparr>logfile = ''log.json'', verbose = False, the_log = [(''site'', example_events)]\<rparr>"

definition example_bad_disk :: "json_file world" where
  "example_bad_disk =
     \<lparr>files = [''pages.json'' \<mapsto> NotJson [], ''conf.d'' \<mapsto> Directory], trace = [], tick = 0\<rparr>"

section \<open>Properties of the requirement checkers\<close>

text \<open>
  Claim C7, amended. For every text and every sequence of parameters that compile as
  regular expressions (the search of each returns, found or not found),
  \<^verbatim>\<open>content_includes\<close> returns true if every parameter finds a match in the text,
  and otherwise returns false and has printed the text. It returns true exactly when
  every parameter finds a match. It returns false at the first parameter that finds
  none, whatever the later parameters are (they are not searched, and may even fail
  to compile). With \<^verbatim>\<open>hello world\<close> as the text, the parameter \<^verbatim>\<open>hello\<close> gives
  true and the parameter \<^verbatim>\<open>xyz\<close> gives false.
\<close>

theorem content_includes_all_match:
  "((\<forall>t\<in>set terms. \<exists>b. re_search E t content = Inr b) \<longrightarrow>
      content_includes_checker E content terms w =
        (if \<forall>t\<in>set terms. re_search E t content = Inr True then (Inr True, w)
         else (Inr False, print (Line content) w)))
   \<and> (fst (content_includes_checker E content terms w) = Inr True) =
     (\<forall>t\<in>set terms. re_search E t content = Inr True)
   \<and> ((\<forall>t\<in>set pre. re_search E t content = Inr True) \<and> re_search E t content = Inr False
        \<longrightarrow> content_includes_checker E content (pre @ t # post) w =
             (Inr False, print (Line content) w))
   \<and> content_includes_checker example_env ''hello world'' [''hello''] w' = (Inr True, w')
   \<and> content_includes_checker example_env ''hello world'' [''xyz''] w' =
        (Inr False, print (Line ''hello world'') w')"
proof (intro conjI impI)
  assume "\<forall>t\<in>set terms. \<exists>b. re_search E t content = Inr b"
  then show "content_includes_checker E content terms w =
        (if \<forall>t\<in>set terms. re_search E t content = Inr True then (Inr True, w)
         else (Inr False, print (Line content) w))"
    by (induction terms) auto
next
  show "(fst (content_includes_checker E content terms w) = Inr True) =
     (\<forall>t\<in>set terms. re_search E t content = Inr True)"
    by (induction terms) (auto split: sum.splits)
next
  assume "(\<forall>t\<in>set pre. re_search E t content = Inr True) \<and> re_search E t content = Inr False"
  then show "content_includes_checker E content (pre @ t # post) w =
             (Inr False, print (Line content) w)"
    by (induction pre) auto
qed (simp_all add: example_env_def)

theorem content_includes_all_match_witness:
  "re_search example_env ''hello'' ''hello world'' = Inr True
   \<and> re_search example_env ''wor'' ''hello world'' = Inr True
   \<and> re_search example_env ''xyz'' ''hello world'' = Inr False
   \<and> re_search example_env ''('' ''hello world'' =
        Inl (ReError ''missing ), unterminated subpattern at position 0'')
   \<and> content_includes_checker example_env ''hello world'' [''hello'', ''wor''] example_world =
        (Inr True, example_world)
   \<and> content_includes_checker example_env ''hello world'' [''hello'', ''xyz'', ''wor''] example_world =
        (Inr False, print (Line ''hello world'') example_world)
   \<and> content_includes_checker example_env ''hello world'' [''hello'', ''xyz'', ''(''] example_world =
        (Inr False, print (Line ''hello world'') example_world)"
proof -
  have a: "re_search example_env ''hello'' ''hello world'' = Inr True"
    and b: "re_search example_env ''xyz'' ''hello world'' = Inr False"
    and c: "re_search example_env ''wor'' ''hello world'' = Inr True"
    and d: "re_search example_env ''('' ''hello world'' =
        Inl (ReError ''missing ), unterminated subpattern at position 0'')"
    by (simp_all add: example_env_def)
  note inst = content_includes_all_match
    [of _ example_env "''hello world''" example_world "[''hello'']" "''xyz''" "[''('']"]
  from inst [of "[''hello'', ''wor'']"] a c
  have 1: "content_includes_checker example_env ''hello world'' [''hello'', ''wor''] example_world =
        (Inr True, example_world)" by simp
  from inst [of "[''hello'', ''xyz'', ''wor'']"] a b c
  have 2: "content_includes_checker example_env ''hello world'' [''hello'', ''xyz'', ''wor''] example_world =
        (Inr False, print (Line ''hello world'') example_world)" by simp
  from inst [of "[]"] a b
  have 3: "content_includes_checker example_env ''hello world'' [''hello'', ''xyz'', ''(''] example_world =
        (Inr False, print (Line ''hello world'') example_world)" by simp
  from a b c d 1 2 3 show ?thesis by blast
qed

text \<open>
  The claim as it was written, for every sequence of parameters, fails on a
  parameter that does not compile: it finds no match, and the checker raises instead
  of returning false, and prints nothing.
\<close>

theorem content_includes_all_match_counterexample:
  "content_includes_checker example_env ''hello world'' [''(''] example_world =
     (Inl (ReError ''missing ), unterminated subpattern at position 0''), example_world)
   \<and> content_includes_checker example_env ''hello world'' [''hello'', ''('', ''xyz''] example_world =
     (Inl (ReError ''missing ), unterminated subpattern at position 0''), example_world)
   \<and> trace (snd (content_includes_checker example_env ''hello world'' [''(''] example_world)) = []"
  by (simp add: example_env_def example_world_def)

text \<open>
  Claim C8, amended. For every text and every sequence of parameters that compile as
  regular expressions, \<^verbatim>\<open>content_does_not_include\<close> returns false if some parameter
  finds a match in the text and true if none does. It returns false at the first
  parameter that finds a match, whatever the later parameters are (they are not
  searched), and true when every parameter is searched and finds none. With
  \<^verbatim>\<open>hello world\<close> as the text, the parameter \<^verbatim>\<open>xyz\<close> gives true and the
  parameter \<^verbatim>\<open>hello\<close> gives false.
\<close>

theorem content_does_not_include_none_match:
  "((\<forall>t\<in>set terms. \<exists>b. re_search E t content = Inr b) \<longrightarrow>
      content_does_not_include_checker E content terms w =
        (if \<exists>t\<in>set terms. re_search E t content = Inr True then (Inr False, w)
         else (Inr True, w)))
   \<and> ((\<forall>t\<in>set pre. re_search E t content = Inr False) \<and> re_search E t content = Inr True
        \<longrightarrow> content_does_not_include_checker E content (pre @ t # post) w = (Inr False, w))
   \<and> ((\<forall>t\<in>set terms. re_search E t content = Inr False)
        \<longrightarrow> content_does_not_include_checker E content terms w = (Inr True, w))
   \<and> content_does_not_include_checker example_env ''hello world'' [''xyz''] w' = (Inr True, w')
   \<and> content_does_not_include_checker example_env ''hello world'' [''hello''] w' = (Inr False, w')"
proof (intro conjI impI)
  assume "\<forall>t\<in>set terms. \<exists>b. re_search E t content = Inr b"
  then show "content_does_not_include_checker E content terms w =
        (if \<exists>t\<in>set terms. re_search E t content = Inr True then (Inr False, w)
         else (Inr True, w))"
    by (induction terms) auto
next
  assume "(\<forall>t\<in>set pre. re_search E t content = Inr False) \<and> re_search E t content = Inr True"
  then show "content_does_not_include_checker E content (pre @ t # post) w = (Inr False, w)"
    by (induction pre) auto
next
  assume "\<forall>t\<in>set terms. re_search E t content = Inr False"
  then show "content_does_not_include_checker E content terms w = (Inr True, w)"
    by (induction terms) auto
qed (simp_all add: example_env_def)

theorem content_does_not_include_none_match_witness:
  "re_search example_env ''xyz'' ''hello world'' = Inr False
   \<and> re_search example_env ''abc'' ''hello world'' = Inr False
   \<and> re_search example_env ''hello'' ''hello world'' = Inr True
   \<and> content_does_not_include_checker example_env ''hello world'' [''xyz'', ''hello'', ''(''] example_world =
        (Inr False, example_world)
   \<and> content_does_not_include_checker example_env ''hello world'' [''xyz'', ''abc''] example_world =
        (Inr True, example_world)
   \<and> content_does_not_include_checker example_env ''hello world'' [''xyz'', ''hello'', ''abc''] example_world =
        (Inr False, example_world)"
proof -
  have a: "re_search example_env ''xyz'' ''hello world'' = Inr False"
    and b: "re_search example_env ''abc'' ''hello world'' = Inr False"
    and c: "re_search example_env ''hello'' ''hello world'' = Inr True"
    by (simp_all add: example_env_def)
  note inst = content_does_not_include_none_match
    [of _ example_env "''hello world''" example_world "[''xyz'']" "''hello''" "[''('']"]
  from inst [of "[''xyz'', ''abc'']"] a b c
  have 1: "content_does_not_include_checker example_env ''hello world'' [''xyz'', ''hello'', ''(''] example_world =
        (Inr False, example_world)"
    and 2: "content_does_not_include_checker example_env ''hello world'' [''xyz'', ''abc''] example_world =
        (Inr True, example_world)"
    by simp_all
  from inst [of "[''xyz'', ''hello'', ''abc'']"] a b c
  have 3: "content_does_not_include_checker example_env ''hello world'' [''xyz'', ''hello'', ''abc''] example_world =
        (Inr False, example_world)" by simp
  from a b c 1 2 3 show ?thesis by blast
qed

text \<open>
  The claim as it was written, for every sequence of parameters, fails on a
  parameter that does not compile: no parameter finds a match, and the checker raises
  instead of returning true.
\<close>

theorem content_does_not_include_none_match_counterexample:
  "re_search example_env ''xyz'' ''hello world'' = Inr False
   \<and> content_does_not_include_checker example_env ''hello world'' [''xyz'', ''(''] example_world =
     (Inl (ReError ''missing ), unterminated subpattern at position 0''), example_world)
   \<and> content_does_not_include_checker example_env ''hello world'' [''(''] example_world =
     (Inl (ReError ''missing ), unterminated subpattern at position 0''), example_world)"
  by (simp add: example_env_def)

section \<open>Properties of the log's dictionary\<close>

lemma getitem_default_known:
  "map_of d k = Some v \<Longrightarrow> getitem_default k d = (v, d)"
  by (simp add: getitem_default_def)

lemma map_of_setitem: "map_of (setitem k v d) = (map_of d)(k \<mapsto> v)"
  by (induction d) (auto simp: fun_eq_iff)



lemma events_add_event:
  "fst (get_events (fst (add_event E lg page ev w)) q) =
     (if q = page then fst (get_events lg page) @ [\<lparr>body = ev, timestamp = time_at E (tick w)\<rparr>]
      else fst (get_events lg q))"
  by (auto simp: add_event_def get_events_def getitem_default_def time_time_def map_of_setitem Let_def
        split: option.splits prod.splits)

lemma add_event_world:
  "snd (add_event E lg page ev w) =
     (if verbose lg then print (EventRepr \<lparr>body = ev, timestamp = time_at E (tick w)\<rparr>) (w\<lparr>tick := Suc (tick w)\<rparr>)
      else w\<lparr>tick := Suc (tick w)\<rparr>)"
  by (auto simp: add_event_def time_time_def Let_def split: prod.splits)


section \<open>Properties of the page checker\<close>

lemma check_requirements_step:
  assumes "requirement_passes E content r"
  shows "\<exists>w1. check_requirements E page content (r # rest) lg w =
           check_requirements E page content rest
             (fst (add_event E lg page (requirement_passed r) w1))
             (snd (add_event E lg page (requirement_passed r) w1))"
proof -
  from assms obtain name params matcher where r: "r = name # params"
    and reg: "get_requirement_checkers name = Some matcher"
    and ok: "\<And>w. fst (matcher E content params w) = Inr True"
    by (auto simp: requirement_passes_def split: list.splits option.splits)
  obtain w1 where m: "matcher E content params w = (Inr True, w1)"
    using ok [of w] by (cases "matcher E content params w") auto
  show ?thesis
    by (rule exI [of _ w1]) (simp add: r reg m split: prod.splits)
qed

lemma check_requirements_pass:
  assumes "\<forall>r\<in>set rs. requirement_passes E content r"
  shows "\<exists>lg' w'. check_requirements E page content rs lg w = (Inr lg', w') \<and>
           map body (fst (get_events lg' page)) =
             map body (fst (get_events lg page)) @ map requirement_passed rs \<and>
           (\<forall>q. q \<noteq> page \<longrightarrow> fst (get_events lg' q) = fst (get_events lg q))"
  using assms
proof (induction rs arbitrary: lg w)
  case Nil
  then show ?case by simp
next
  case (Cons r rs)
  then have r: "requirement_passes E content r"
    and rs: "\<forall>r\<in>set rs. requirement_passes E content r" by auto
  from check_requirements_step [OF r] obtain w1 where
    step: "check_requirements E page content (r # rs) lg w =
           check_requirements E page content rs
             (fst (add_event E lg page (requirement_passed r) w1))
             (snd (add_event E lg page (requirement_passed r) w1))" by blast
  from Cons.IH [OF rs, of "fst (add_event E lg page (requirement_passed r) w1)"
      "snd (add_event E lg page (requirement_passed r) w1)"]
  show ?case unfolding step
    by (auto simp: events_add_event)
qed


lemma check_page_failed_result:
  assumes "http_at E (Suc (tick w)) (url config) = Inl e"
  shows "check_page E page config lg w =
           (Inr (fst (add_event E lg page (response_failed e)
                   (w\<lparr>trace := trace w @ [Get (url config)], tick := Suc (Suc (tick w))\<rparr>))),
            snd (add_event E lg page (response_failed e)
                   (w\<lparr>trace := trace w @ [Get (url config)], tick := Suc (Suc (tick w))\<rparr>)))"
  using assms by (simp add: check_page_def Let_def case_prod_beta requests_get_def time_time_def)

lemma check_page_received_result:
  assumes "http_at E (Suc (tick w)) (url config) = Inr content"
  shows "check_page E page config lg w =
           (let w3 = w\<lparr>trace := trace w @ [Get (url config)], tick := Suc (Suc (Suc (tick w)))\<rparr>;
                d = time_at E (Suc (Suc (tick w))) - time_at E (tick w)
            in check_requirements E page content (requirements config)
                 (fst (add_event E lg page (response_received d) w3))
                 (snd (add_event E lg page (response_received d) w3)))"
  using assms by (simp add: check_page_def Let_def case_prod_beta requests_get_def time_time_def)


text \<open>
  Claim C1, amended. For every page whose HTTP GET succeeds and all of whose
  requirements pass, one call of the page checker returns and appends to that page's
  events exactly 1 + number of requirements events: one \<^verbatim>\<open>response_received\<close>,
  then one \<^verbatim>\<open>requirement_passed\<close> for each requirement, in order. When the GET
  raises, the call returns and appends the one \<^verbatim>\<open>response_failed\<close> event only.
\<close>

theorem check_page_event_count:
  "(http_at E (Suc (tick w)) (url config) = Inr content
      \<and> (\<forall>r\<in>set (requirements config). requirement_passes E content r)
    \<longrightarrow> (\<exists>lg' w' d. check_page E page config lg w = (Inr lg', w')
          \<and> map body (fst (get_events lg' page)) =
              map body (fst (get_events lg page)) @
                response_received d # map requirement_passed (requirements config)
          \<and> length (fst (get_events lg' page)) =
              length (fst (get_events lg page)) + (1 + length (requirements config))))
   \<and> (http_at E (Suc (tick w)) (url config) = Inl e
    \<longrightarrow> (\<exists>lg' w' t. check_page E page config lg w = (Inr lg', w')
          \<and> fst (get_events lg' page) =
              fst (get_events lg page) @ [\<lparr>body = response_failed e, timestamp = t\<rparr>]
          \<and> length (fst (get_events lg' page)) = length (fst (get_events lg page)) + 1))"
proof (intro conjI impI)
  assume a: "http_at E (Suc (tick w)) (url config) = Inr content
      \<and> (\<forall>r\<in>set (requirements config). requirement_passes E content r)"
  define w3 where "w3 = w\<lparr>trace := trace w @ [Get (url config)], tick := Suc (Suc (Suc (tick w)))\<rparr>"
  define d where "d = time_at E (Suc (Suc (tick w))) - time_at E (tick w)"
  define lg1 where "lg1 = fst (add_event E lg page (response_received d) w3)"
  define w4 where "w4 = snd (add_event E lg page (response_received d) w3)"
  from a have "check_page E page config lg w =
      check_requirements E page content (requirements config) lg1 w4"
    by (simp add: check_page_received_result Let_def w3_def d_def lg1_def w4_def)
  moreover from a check_requirements_pass [of "requirements config" E content page lg1 w4]
  obtain lg' w' where "check_requirements E page content (requirements config) lg1 w4 = (Inr lg', w')"
    and ev: "map body (fst (get_events lg' page)) =
             map body (fst (get_events lg1 page)) @ map requirement_passed (requirements config)"
    by blast
  moreover have "fst (get_events lg1 page) =
      fst (get_events lg page) @ [\<lparr>body = response_received d, timestamp = time_at E (tick w3)\<rparr>]"
    by (simp add: lg1_def events_add_event)
  ultimately have r: "check_page E page config lg w = (Inr lg', w')"
    and b: "map body (fst (get_events lg' page)) =
              map body (fst (get_events lg page)) @
                response_received d # map requirement_passed (requirements config)"
    by simp_all
  from b have "length (map body (fst (get_events lg' page))) =
     length (map body (fst (get_events lg page)) @
                response_received d # map requirement_passed (requirements config))"
    by (rule arg_cong)
  then have "length (fst (get_events lg' page)) =
              length (fst (get_events lg page)) + (1 + length (requirements config))"
    by simp
  with r b show "\<exists>lg' w' d. check_page E page config lg w = (Inr lg', w')
          \<and> map body (fst (get_events lg' page)) =
              map body (fst (get_events lg page)) @
                response_received d # map requirement_passed (requirements config)
          \<and> length (fst (get_events lg' page)) =
              length (fst (get_events lg page)) + (1 + length (requirements config))"
    by blast
next
  assume a: "http_at E (Suc (tick w)) (url config) = Inl e"
  show "\<exists>lg' w' t. check_page E page config lg w = (Inr lg', w')
          \<and> fst (get_events lg' page) =
              fst (get_events lg page) @ [\<lparr>body = response_failed e, timestamp = t\<rparr>]
          \<and> length (fst (get_events lg' page)) = length (fst (get_events lg page)) + 1"
    by (simp add: check_page_failed_result [OF a] events_add_event)
qed

theorem check_page_event_count_witness:
  "http_at example_env (Suc (tick example_world)) (url example_page) = Inr ''Example Domain''
   \<and> requirement_passes example_env ''Example Domain'' [''content_includes'', ''Example'']
   \<and> http_at example_env (Suc (tick example_world)) (url down_page) = Inl ''Connection refused''
   \<and> (\<exists>lg' w'. check_page example_env ''site'' example_page example_log example_world = (Inr lg', w')
        \<and> length (fst (get_events lg' ''site'')) = 2)
   \<and> (\<exists>lg' w'. check_page example_env ''site'' down_page example_log example_world = (Inr lg', w')
        \<and> length (fst (get_events lg' ''site'')) = 1)"
proof -
  have a: "http_at example_env (Suc (tick example_world)) (url example_page) = Inr ''Example Domain''"
    and b: "http_at example_env (Suc (tick example_world)) (url down_page) = Inl ''Connection refused''"
    by (simp_all add: example_env_def example_page_def down_page_def)
  have c: "requirement_passes example_env ''Example Domain'' [''content_includes'', ''Example'']"
    by (simp add: requirement_passes_def get_requirement_checkers_def example_env_def)
  have d: "fst (get_events example_log ''site'') = []"
    by (simp add: get_events_def getitem_default_def example_log_def)
  have rs: "requirements example_page = [[''content_includes'', ''Example'']]"
    and rs': "requirements down_page = [[''content_includes'', ''Example'']]"
    by (simp_all add: example_page_def down_page_def)
  from check_page_event_count
    [of example_env example_world example_page "''Example Domain''" "''site''" example_log]
    a c d rs
  have 1: "\<exists>lg' w'. check_page example_env ''site'' example_page example_log example_world = (Inr lg', w')
        \<and> length (fst (get_events lg' ''site'')) = 2"
    by auto
  from check_page_event_count
    [of example_env example_world down_page _ "''site''" example_log "''Connection refused''"]
    b d
  have 2: "\<exists>lg' w'. check_page example_env ''site'' down_page example_log example_world = (Inr lg', w')
        \<and> length (fst (get_events lg' ''site'')) = 1"
    by auto
  from a b c 1 2 show ?thesis by blast
qed

text \<open>
  The count of the claim as it was written, 1 + (1 + number of requirements), is one
  too many: a page with one passing requirement gets two events, not three.
\<close>

theorem check_page_event_count_counterexample:
  "http_at example_env (Suc (tick example_world)) (url example_page) = Inr ''Example Domain''
   \<and> requirements example_page = [[''content_includes'', ''Example'']]
   \<and> requirement_passes example_env ''Example Domain'' [''content_includes'', ''Example'']
   \<and> fst (get_events example_log ''site'') = []
   \<and> check_page example_env ''site'' example_page example_log example_world =
     (Inr \<lparr>logfile = ''log.json'', verbose = False,
           the_log = [(''site'', [\<lparr>body = response_received 2, timestamp = 3\<rparr>,
                                  \<lparr>body = requirement_passed [''content_includes'', ''Example''], timestamp = 4\<rparr>])]\<rparr>,
      \<lparr>files = Map.empty, trace = [Get ''http://example.test''], tick = 5\<rparr>)
   \<and> length [\<lparr>body = response_received 2, timestamp = 3\<rparr>,
              \<lparr>body = requirement_passed [''content_includes'', ''Example''], timestamp = 4\<rparr>]
       \<noteq> length (fst (get_events example_log ''site'')) + (1 + (1 + length (requirements example_page)))"
  by (simp add: check_page_def example_page_def example_log_def example_world_def example_env_def
      time_time_def requests_get_def add_event_def getitem_default_def get_requirement_checkers_def
      get_events_def requirement_passes_def Let_def)


text \<open>
  Claim C2. The page checker reads the clock and then issues the GET, so the GET is
  answered at the tick after the one the call starts in. When the HTTP GET raises,
  the page checker returns (it does not raise),
  and has appended to the page's events exactly one \<^verbatim>\<open>response_failed\<close> event
  that carries the text of the exception; the events of the other pages are as
  before. No requirement is evaluated: the only effects are the GET and, in verbose
  mode, the echo of the event, and the result is the same for any other list of
  requirements and any other regular expression engine, even ones on which an
  evaluation would raise. The pass goes on: the run loop saves the log and, when the
  write has completed, checks the remaining pages.
\<close>

theorem check_page_transport_failure:
  assumes "http_at E (Suc (tick w)) (url config) = Inl e"
  shows "\<exists>lg' w'. check_page E page config lg w = (Inr lg', w')
     \<and> fst (get_events lg' page) =
         fst (get_events lg page) @ [\<lparr>body = response_failed e, timestamp = time_at E (tick w + 2)\<rparr>]
     \<and> (\<forall>q. q \<noteq> page \<longrightarrow> fst (get_events lg' q) = fst (get_events lg q))
     \<and> trace w' = trace w @ Get (url config) #
         (if verbose lg
          then [Print (EventRepr \<lparr>body = response_failed e, timestamp = time_at E (tick w + 2)\<rparr>)]
          else [])
     \<and> check_page (E\<lparr>re_search := s\<rparr>) page (config\<lparr>requirements := rs\<rparr>) lg w = (Inr lg', w')
     \<and> check_pages E ((page, config) # rest) lg w =
         (case Log_save E lg' w' of
            (Inl e', w'') \<Rightarrow> (Inl e', w'')
          | (Inr u, w'') \<Rightarrow> check_pages E rest lg' w'')
     \<and> (write_fault E (tick w') (logfile lg') = None \<longrightarrow>
          check_pages E ((page, config) # rest) lg w = check_pages E rest lg' (save E lg' w'))"
proof -
  let ?w2 = "w\<lparr>trace := trace w @ [Get (url config)], tick := Suc (Suc (tick w))\<rparr>"
  let ?lg = "fst (add_event E lg page (response_failed e) ?w2)"
  let ?w = "snd (add_event E lg page (response_failed e) ?w2)"
  have r: "check_page E page config lg w = (Inr ?lg, ?w)"
    by (rule check_page_failed_result [OF assms])
  have "http_at (E\<lparr>re_search := s\<rparr>) (Suc (tick w)) (url (config\<lparr>requirements := rs\<rparr>)) = Inl e"
    using assms by simp
  from check_page_failed_result [OF this, of page lg]
  have r': "check_page (E\<lparr>re_search := s\<rparr>) page (config\<lparr>requirements := rs\<rparr>) lg w = (Inr ?lg, ?w)"
    by (simp add: add_event_def time_time_def)
  have ev: "fst (get_events ?lg page) =
         fst (get_events lg page) @ [\<lparr>body = response_failed e, timestamp = time_at E (tick w + 2)\<rparr>]"
    by (simp add: events_add_event)
  have other: "\<forall>q. q \<noteq> page \<longrightarrow> fst (get_events ?lg q) = fst (get_events lg q)"
    by (simp add: events_add_event)
  have tr: "trace ?w = trace w @ Get (url config) #
         (if verbose lg
          then [Print (EventRepr \<lparr>body = response_failed e, timestamp = time_at E (tick w + 2)\<rparr>)]
          else [])"
    by (simp add: add_event_world print_def)
  have pages: "check_pages E ((page, config) # rest) lg w =
         (case Log_save E ?lg ?w of
            (Inl e', w'') \<Rightarrow> (Inl e', w'')
          | (Inr u, w'') \<Rightarrow> check_pages E rest ?lg w'')"
    by (simp add: r)
  have saved: "write_fault E (tick ?w) (logfile ?lg) = None \<longrightarrow>
          check_pages E ((page, config) # rest) lg w = check_pages E rest ?lg (save E ?lg ?w)"
    by (simp add: r Log_save_def)
  show ?thesis
    by (rule exI [of _ ?lg], rule exI [of _ ?w], intro conjI)
      (rule r r' ev other tr pages saved)+
qed

theorem check_page_transport_failure_witness:
  "http_at example_env (Suc (tick example_world)) (url down_page) = Inl ''Connection refused''
   \<and> (\<exists>lg' w'. check_page example_env ''down'' down_page example_log example_world = (Inr lg', w')
        \<and> fst (get_events lg' ''down'') =
            [\<lparr>body = response_failed ''Connection refused'', timestamp = 2\<rparr>]
        \<and> trace w' = [Get ''http://down.test'']
        \<and> check_page (example_env\<lparr>re_search := (\<lambda>t c. Inl (ReError ''never called''))\<rparr>) ''down''
             (down_page\<lparr>requirements := [[], [''no_such_checker'']]\<rparr>) example_log example_world =
           (Inr lg', w'))"
proof -
  have a: "http_at example_env (Suc (tick example_world)) (url down_page) = Inl ''Connection refused''"
    by (simp add: example_env_def down_page_def)
  have d: "fst (get_events example_log ''down'') = []"
    by (simp add: get_events_def getitem_default_def example_log_def)
  have v: "\<not> verbose example_log" "trace example_world = []" "url down_page = ''http://down.test''"
    "time_at example_env (tick example_world + 2) = 2"
    by (simp_all add: example_log_def example_world_def down_page_def example_env_def)
  from check_page_transport_failure [OF a, of "''down''" example_log
      "\<lambda>t c. Inl (ReError ''never called'')" "[[], [''no_such_checker'']]" "[]"]
  obtain lg' w' where r: "check_page example_env ''down'' down_page example_log example_world = (Inr lg', w')"
    and e: "fst (get_events lg' ''down'') = fst (get_events example_log ''down'') @
         [\<lparr>body = response_failed ''Connection refused'',
            timestamp = time_at example_env (tick example_world + 2)\<rparr>]"
    and t: "trace w' = trace example_world @ Get (url down_page) #
         (if verbose example_log
          then [Print (EventRepr \<lparr>body = response_failed ''Connection refused'',
                  timestamp = time_at example_env (tick example_world + 2)\<rparr>)]
          else [])"
    and i: "check_page (example_env\<lparr>re_search := (\<lambda>t c. Inl (ReError ''never called''))\<rparr>) ''down''
             (down_page\<lparr>requirements := [[], [''no_such_checker'']]\<rparr>) example_log example_world =
           (Inr lg', w')"
    apply (elim exE conjE)
    subgoal premises p for lg' w'
      by (rule p(1) [OF p(2) p(3) p(5) p(6)])
    done
  from e have e': "fst (get_events lg' ''down'') =
            [\<lparr>body = response_failed ''Connection refused'', timestamp = 2\<rparr>]"
    by (simp add: d example_env_def example_world_def)
  from t have t': "trace w' = [Get ''http://down.test'']"
    by (simp add: v)
  from a r e' t' i show ?thesis by blast
qed

section \<open>Properties of the event log\<close>






lemma get_events_present:
  "page \<in> set (get_pages self) \<Longrightarrow> snd (get_events self page) = self"
proof -
  assume "page \<in> set (get_pages self)"
  then obtain v where "map_of (the_log self) page = Some v"
    by (cases "map_of (the_log self) page") (auto simp: get_pages_def map_of_eq_None_iff)
  then show ?thesis by (simp add: get_events_def getitem_default_def)
qed

lemma after_reads_present:
  "set ps \<subseteq> set (get_pages self) \<Longrightarrow> after_reads self ps = self"
  unfolding after_reads_def
  by (induction ps) (simp_all add: get_events_present)

text \<open>
  Claim C4, amended. For every log state, \<open>save\<close> writes the dump of the log's
  dictionary to the log file, whatever the world it is called in. So two calls of
  \<open>save\<close> with the dictionary unchanged in between write the same content, when
  both writes complete: back to back, or with calls in between of \<open>get_pages\<close> and
  of \<open>get_events\<close> for pages that are in the log, which change nothing. (A call of
  \<open>add_event\<close>, or of \<open>get_events\<close> for a page that is not in the log, changes
  the dictionary.)
\<close>

theorem save_twice_same_content:
  "(set ps \<subseteq> set (get_pages self) \<longrightarrow>
      after_reads self ps = self
      \<and> files (save E (after_reads self ps) w') (logfile (after_reads self ps)) =
          files (save E self w) (logfile self))
   \<and> (write_fault E (tick w) (logfile self) = None \<longrightarrow> Log_save E self w = (Inr (), save E self w))
   \<and> files (save E self w) (logfile self) = Some (json_dump E (the_log self))
   \<and> files (save E self w') (logfile self) = files (save E self w) (logfile self)
   \<and> files (save E self (save E self w)) = files (save E self w)
   \<and> trace (save E self w) = trace w @ [Write (logfile self) (json_dump E (the_log self))]
   \<and> trace (save E self (save E self w)) =
       trace (save E self w) @ [Write (logfile self) (json_dump E (the_log self))]"
  by (simp add: save_def write_file_def Log_save_def after_reads_present)

theorem save_twice_same_content_witness:
  "set [''site'', ''site''] \<subseteq> set (get_pages example_filled)
   \<and> write_fault example_env (tick example_world) (logfile example_filled) = None
   \<and> after_reads example_filled [''site'', ''site''] = example_filled
   \<and> Log_save example_env example_filled example_world =
        (Inr (), save example_env example_filled example_world)
   \<and> files (save example_env example_filled example_world) ''log.json'' =
        Some (LogFile [(''site'', example_events)])
   \<and> files (save example_env (after_reads example_filled [''site'', ''site''])
              (save example_env example_filled example_world)) ''log.json'' =
        Some (LogFile [(''site'', example_events)])"
proof -
  have a: "set [''site'', ''site''] \<subseteq> set (get_pages example_filled)"
    and b: "write_fault example_env (tick example_world) (logfile example_filled) = None"
    and l: "logfile example_filled = ''log.json''"
    and d: "json_dump example_env (the_log example_filled) = LogFile [(''site'', example_events)]"
    by (simp_all add: get_pages_def example_filled_def example_env_def)
  note inst = save_twice_same_content
    [of "[''site'', ''site'']" example_filled example_env _ example_world]
  from inst [of "save example_env example_filled example_world"] a b l d
  show ?thesis by simp
qed

text \<open>
  The claim as it was written forbids \<open>add_event\<close> only. It fails with a call of
  \<open>get_events\<close> for a page that is not in the log between the two calls of
  \<open>save\<close>: both writes complete, and the second writes the page with no events,
  which the first had not written.
\<close>

theorem save_twice_same_content_counterexample:
  "Log_save example_env example_log example_world =
     (Inr (), save example_env example_log example_world)
   \<and> files (save example_env example_log example_world) ''log.json'' = Some (LogFile [])
   \<and> Log_save example_env (snd (get_events example_log ''site''))
        (save example_env example_log example_world) =
     (Inr (), save example_env (snd (get_events example_log ''site''))
                (save example_env example_log example_world))
   \<and> files (save example_env (snd (get_events example_log ''site''))
              (save example_env example_log example_world)) ''log.json'' =
     Some (LogFile [(''site'', [])])
   \<and> LogFile [] \<noteq> LogFile [(''site'', [])]"
  by (simp add: Log_save_def save_def write_file_def example_env_def example_log_def
      example_world_def get_events_def getitem_default_def)



section \<open>Properties of the configuration loader\<close>

text \<open>
  Claim C6, amended. For a path that does not exist, \<open>load_config\<close> does not
  return: it prints and raises (the call of \<^verbatim>\<open>sys.abort\<close> is an AttributeError),
  and \<open>run_check\<close> ends with that exception before it has opened the log or checked
  a page. For a path that exists, \<open>load_config\<close> does what \<^verbatim>\<open>open\<close> and
  \<^verbatim>\<open>json.load\<close> do on it: for a file that can be read and holds JSON it returns
  the mapping of page names to page configurations that was parsed, and otherwise it
  raises their exception.
\<close>

theorem load_config_missing_or_parsed:
  "(files w configfile = None \<longrightarrow>
      load_config E configfile w =
        (Inl (AttributeError ''abort''), print (Line (''Config file '' @ configfile @ '' not found.'')) w)
      \<and> run_check E configfile delay lf vb w =
        Some (Inl (AttributeError ''abort''), print (Line (''Config file '' @ configfile @ '' not found.'')) w))
   \<and> (files w configfile = Some c \<longrightarrow> load_config E configfile w = (json_load_config E c, w))
   \<and> (files w configfile = Some c \<and> json_load_config E c = Inr pages \<longrightarrow>
        load_config E configfile w = (Inr pages, w))"
  by (simp add: load_config_def run_check_def)

theorem load_config_missing_or_parsed_witness:
  "files example_world ''pages.json'' = None
   \<and> load_config example_env ''pages.json'' example_world =
        (Inl (AttributeError ''abort''), print (Line ''Config file pages.json not found.'') example_world)
   \<and> run_check example_env ''pages.json'' (- 1) ''log.json'' False example_world =
        Some (Inl (AttributeError ''abort''), print (Line ''Config file pages.json not found.'') example_world)
   \<and> files example_disk ''pages.json'' = Some (ConfigFile example_config)
   \<and> json_load_config example_env (ConfigFile example_config) = Inr example_config
   \<and> load_config example_env ''pages.json'' example_disk = (Inr example_config, example_disk)"
proof -
  have a: "files example_world ''pages.json'' = None"
    and b: "files example_disk ''pages.json'' = Some (ConfigFile example_config)"
    and c: "json_load_config example_env (ConfigFile example_config) = Inr example_config"
    by (simp_all add: example_world_def example_disk_def example_env_def)
  from load_config_missing_or_parsed
      [of example_world "''pages.json''" example_env "- 1" "''log.json''" False]
    load_config_missing_or_parsed
      [of example_disk "''pages.json''" example_env _ _ _ "ConfigFile example_config" example_config]
    a b c
  show ?thesis by simp
qed

text \<open>
  The claim as it was written, that every existing path gives the parsed mapping,
  fails on an existing file that is empty, and on a directory: \<open>load_config\<close> raises
  and returns no mapping.
\<close>

theorem load_config_missing_or_parsed_counterexample:
  "files example_bad_disk ''pages.json'' = Some (NotJson [])
   \<and> load_config example_env ''pages.json'' example_bad_disk =
        (Inl (JSONDecodeError ''Expecting value: line 1 column 1 (char 0)''), example_bad_disk)
   \<and> run_check example_env ''pages.json'' (- 1) ''log.json'' False example_bad_disk =
        Some (Inl (JSONDecodeError ''Expecting value: line 1 column 1 (char 0)''), example_bad_disk)
   \<and> files example_bad_disk ''conf.d'' = Some Directory
   \<and> load_config example_env ''conf.d'' example_bad_disk =
        (Inl (IsADirectoryError ''Is a directory''), example_bad_disk)"
  by (simp add: load_config_def run_check_def example_bad_disk_def example_env_def)

section \<open>Properties of the status page\<close>











section \<open>Properties of the run loop\<close>



























end
